theory Spec2Isabelle
  imports Main "HOL-Library.Multiset" "HOL-Library.Char_ord" "HOL-Library.List_Lexorder"
begin

section \<open>Strings\<close>

text \<open>
  Strings are lists of 8-bit characters, one \<^typ>\<open>char\<close> per character of the Python
  string: URLs, titles and contents are taken to hold characters below 256 only, so that
  \<open>length\<close> is Python's \<^verbatim>\<open>len\<close>. The functions below are the \<^verbatim>\<open>str\<close>
  methods the program calls.
\<close>

definition ascii_lower :: "char \<Rightarrow> char" where
  "ascii_lower c =
     (case map_of (zip ''ABCDEFGHIJKLMNOPQRSTUVWXYZ'' ''abcdefghijklmnopqrstuvwxyz'') c of
        None \<Rightarrow> c
      | Some l \<Rightarrow> l)"

text \<open>\<^verbatim>\<open>str.isspace\<close> on one character below 256.\<close>

definition isspace :: "char \<Rightarrow> bool" where
  "isspace c \<longleftrightarrow>
     c \<in> set [CHR 0x09, CHR 0x0A, CHR 0x0B, CHR 0x0C, CHR 0x0D, CHR 0x1C, CHR 0x1D,
               CHR 0x1E, CHR 0x1F, CHR 0x20, CHR 0x85, CHR 0xA0]"

definition strip :: "string \<Rightarrow> string" where
  "strip s = rev (dropWhile isspace (rev (dropWhile isspace s)))"

definition startswith :: "string \<Rightarrow> string \<Rightarrow> bool" where
  "startswith s p \<longleftrightarrow> take (length p) s = p"

definition endswith :: "string \<Rightarrow> string \<Rightarrow> bool" where
  "endswith s p \<longleftrightarrow> length p \<le> length s \<and> drop (length s - length p) s = p"

text \<open>\<^verbatim>\<open>sub in s\<close>.\<close>

fun contains :: "string \<Rightarrow> string \<Rightarrow> bool" where
  "contains sub [] \<longleftrightarrow> sub = []"
| "contains sub (c # cs) \<longleftrightarrow> startswith (c # cs) sub \<or> contains sub cs"

text \<open>\<^verbatim>\<open>s.split(sep)\<close> for a separator of one character: never an empty list.\<close>

fun split_on :: "char \<Rightarrow> string \<Rightarrow> string list" where
  "split_on sep [] = [[]]"
| "split_on sep (c # cs) =
     (if c = sep then [] # split_on sep cs
      else (case split_on sep cs of
              [] \<Rightarrow> [[c]]
            | w # ws \<Rightarrow> (c # w) # ws))"

text \<open>\<^verbatim>\<open>sep.join(xs)\<close>.\<close>

fun join :: "string \<Rightarrow> string list \<Rightarrow> string" where
  "join sep [] = []"
| "join sep [x] = x"
| "join sep (x # y # ys) = x @ sep @ join sep (y # ys)"

text \<open>\<^verbatim>\<open>str(n)\<close> for a natural number, as the f-strings of the report print it.\<close>

fun str_nat :: "nat \<Rightarrow> string" where
  "str_nat n =
     (if n < 10 then [''0123456789'' ! n]
      else str_nat (n div 10) @ [''0123456789'' ! (n mod 10)])"

section \<open>Regular expressions of the link classifier\<close>

text \<open>
  The patterns of \<^verbatim>\<open>trafilatura_spider.py\<close> are sequences of literal characters,
  \<^verbatim>\<open>\d\<close>, the class \<^verbatim>\<open>[a-z-]\<close>, the repetition \<^verbatim>\<open>+\<close> of one of these
  (\<^verbatim>\<open>\d{4}\<close> is four \<^verbatim>\<open>\d\<close>), and \<^verbatim>\<open>$\<close>, which Python matches at the end of the
  string and just before a newline that ends the string.
\<close>

datatype atom = Lit char | Digit | LetterOrDash

datatype item = One atom | Plus atom | Eos

text \<open>
  One character against one atom under \<^verbatim>\<open>re.IGNORECASE\<close>: letters are compared
  without regard to case.
\<close>

fun atom_ok :: "atom \<Rightarrow> char \<Rightarrow> bool" where
  "atom_ok (Lit p) c \<longleftrightarrow> ascii_lower c = ascii_lower p"
| "atom_ok Digit c \<longleftrightarrow> c \<in> set ''0123456789''"
| "atom_ok LetterOrDash c \<longleftrightarrow> ascii_lower c \<in> set ''abcdefghijklmnopqrstuvwxyz-''"

text \<open>Does the pattern match a prefix of the string?\<close>

fun match_here :: "item list \<Rightarrow> string \<Rightarrow> bool" where
  "match_here [] s \<longleftrightarrow> True"
| "match_here (Eos # r) s \<longleftrightarrow> (s = [] \<or> s = [CHR 0x0A]) \<and> match_here r s"
| "match_here (One a # r) [] \<longleftrightarrow> False"
| "match_here (One a # r) (c # cs) \<longleftrightarrow> atom_ok a c \<and> match_here r cs"
| "match_here (Plus a # r) [] \<longleftrightarrow> False"
| "match_here (Plus a # r) (c # cs) \<longleftrightarrow>
     atom_ok a c \<and> (match_here (Plus a # r) cs \<or> match_here r cs)"

text \<open>
  \<^verbatim>\<open>re.search(pattern, s, re.IGNORECASE)\<close>: a match starting at some position, the
  end included.
\<close>

fun re_search :: "item list \<Rightarrow> string \<Rightarrow> bool" where
  "re_search pattern [] \<longleftrightarrow> match_here pattern []"
| "re_search pattern (c # cs) \<longleftrightarrow> match_here pattern (c # cs) \<or> re_search pattern cs"

text \<open>
  The loop \<^verbatim>\<open>for pattern in patterns: if re.search(pattern, url, re.IGNORECASE)\<close>.
\<close>

definition matches_any :: "item list list \<Rightarrow> string \<Rightarrow> bool" where
  "matches_any patterns url = list_ex (\<lambda>pattern. re_search pattern url) patterns"

definition lit :: "string \<Rightarrow> item list" where
  "lit s = map (\<lambda>c. One (Lit c)) s"

definition digits :: "item list" where
  "digits = [Plus Digit]"

definition skip_patterns :: "item list list" where
  "skip_patterns =
     [lit ''/login'', lit ''/signup'', lit ''/subscribe'', lit ''/advertise'', lit ''/contact'',
      lit ''/about'', lit ''/privacy'', lit ''/terms'', lit ''/cookie'', lit ''/sitemap'',
      lit ''/search'', lit ''/tag/'', lit ''/category/'', lit ''/author/'', lit ''/user/'',
      lit ''.pdf'' @ [Eos], lit ''.jpg'' @ [Eos], lit ''.png'' @ [Eos], lit ''.gif'' @ [Eos],
      lit ''.mp4'' @ [Eos], lit ''.mp3'' @ [Eos],
      lit ''/video/'', lit ''/gallery/'', lit ''/slideshow/'', lit ''/interactive/'',
      lit ''/newsletter'', lit ''/rss'', lit ''/feed'', lit ''/api/'', lit ''/ajax/'',
      lit ''#'', lit ''?utm_'', lit ''?fbclid'', lit ''?ref='', lit ''?source='']"

definition article_patterns :: "item list list" where
  "article_patterns =
     [lit ''/article/'', lit ''/story/'', lit ''/news/'', lit ''/business/'', lit ''/finance/'',
      lit ''/markets/'', lit ''/economy/'', lit ''/technology/'', lit ''/earnings/'',
      lit ''/analysis/'', lit ''/commentary/'', lit ''/opinion/'', lit ''/report/'',
      replicate 4 (One Digit) @ lit ''/'' @ replicate 2 (One Digit) @ lit ''/''
        @ replicate 2 (One Digit),
      replicate 4 (One Digit) @ lit ''-'' @ replicate 2 (One Digit) @ lit ''-''
        @ replicate 2 (One Digit),
      [Plus LetterOrDash] @ lit ''-'' @ digits]"

definition category_patterns :: "item list list" where
  "category_patterns =
     [lit ''/business/'', lit ''/finance/'', lit ''/markets/'', lit ''/economy/'',
      lit ''/technology/'',
      lit ''/news/'', lit ''/world/'', lit ''/politics/'', lit ''/opinion/'', lit ''/analysis/'',
      lit ''/earnings/'', lit ''/stocks/'', lit ''/commodities/'', lit ''/currencies/'',
      lit ''/cryptocurrency/'', lit ''/crypto/'', lit ''/blockchain/'', lit ''/ai/'',
      lit ''/artificial-intelligence/'',
      lit ''/startups/'', lit ''/venture-capital/'', lit ''/ipo/'', lit ''/mergers/'',
      lit ''/acquisitions/'',
      lit ''/regulation/'', lit ''/policy/'', lit ''/trade/'', lit ''/tariffs/'',
      lit ''/inflation/'',
      lit ''/interest-rates/'', lit ''/federal-reserve/'', lit ''/central-bank/'',
      lit ''/monetary-policy/'']"

definition pagination_patterns :: "item list list" where
  "pagination_patterns =
     [lit ''/page/'' @ digits, lit ''/p/'' @ digits, lit ''/page'' @ digits, lit ''/p'' @ digits,
      lit ''?page='' @ digits, lit ''&page='' @ digits, lit ''?p='' @ digits,
      lit ''&p='' @ digits,
      lit ''/news/page/'' @ digits, lit ''/business/page/'' @ digits,
      lit ''/technology/page/'' @ digits,
      lit ''/finance/page/'' @ digits, lit ''/markets/page/'' @ digits,
      lit ''/economy/page/'' @ digits,
      lit ''page='' @ digits, lit ''p='' @ digits, lit ''offset='' @ digits,
      lit ''start='' @ digits]"

subsection \<open>Matching a lower-cased subject\<close>

text \<open>
  The same matcher with exact comparison of characters, run on the lower-cased subject.
  For a pattern whose literals are in lower case it decides the same matches (shown below
  as \<open>matches_any_lowered_eq\<close>) and lowers each character of the subject once.
\<close>

fun atom_exact :: "atom \<Rightarrow> char \<Rightarrow> bool" where
  "atom_exact (Lit p) c \<longleftrightarrow> c = p"
| "atom_exact Digit c \<longleftrightarrow> c \<in> set ''0123456789''"
| "atom_exact LetterOrDash c \<longleftrightarrow> c \<in> set ''abcdefghijklmnopqrstuvwxyz-''"

fun match_exact :: "item list \<Rightarrow> string \<Rightarrow> bool" where
  "match_exact [] s \<longleftrightarrow> True"
| "match_exact (Eos # r) s \<longleftrightarrow> (s = [] \<or> s = [CHR 0x0A]) \<and> match_exact r s"
| "match_exact (One a # r) [] \<longleftrightarrow> False"
| "match_exact (One a # r) (c # cs) \<longleftrightarrow> atom_exact a c \<and> match_exact r cs"
| "match_exact (Plus a # r) [] \<longleftrightarrow> False"
| "match_exact (Plus a # r) (c # cs) \<longleftrightarrow>
     atom_exact a c \<and> (match_exact (Plus a # r) cs \<or> match_exact r cs)"

fun search_exact :: "item list \<Rightarrow> string \<Rightarrow> bool" where
  "search_exact pattern [] \<longleftrightarrow> match_exact pattern []"
| "search_exact pattern (c # cs) \<longleftrightarrow> match_exact pattern (c # cs) \<or> search_exact pattern cs"

definition matches_any_lowered :: "item list list \<Rightarrow> string \<Rightarrow> bool" where
  "matches_any_lowered patterns url =
     (let subject = map ascii_lower url
      in list_ex (\<lambda>pattern. search_exact pattern subject) patterns)"

fun lower_atom :: "atom \<Rightarrow> bool" where
  "lower_atom (Lit p) \<longleftrightarrow> ascii_lower p = p"
| "lower_atom Digit \<longleftrightarrow> True"
| "lower_atom LetterOrDash \<longleftrightarrow> True"

fun lower_item :: "item \<Rightarrow> bool" where
  "lower_item (One a) \<longleftrightarrow> lower_atom a"
| "lower_item (Plus a) \<longleftrightarrow> lower_atom a"
| "lower_item Eos \<longleftrightarrow> True"

section \<open>Link classification\<close>

definition is_category_page :: "string \<Rightarrow> string \<Rightarrow> bool" where
  "is_category_page url domain \<longleftrightarrow> matches_any category_patterns url"

definition is_likely_article_url :: "string \<Rightarrow> string \<Rightarrow> bool" where
  "is_likely_article_url url domain \<longleftrightarrow>
     (if matches_any skip_patterns url then False
      else if matches_any article_patterns url then True
      else length url > 50)"

definition is_pagination_link :: "string \<Rightarrow> string \<Rightarrow> bool" where
  "is_pagination_link url domain \<longleftrightarrow> matches_any pagination_patterns url"

text \<open>
  \<^verbatim>\<open>urlparse\<close> is the standard library's: the model takes the function
  \<open>urlparse_netloc\<close> that gives \<^verbatim>\<open>urlparse(url).netloc\<close>, with \<open>None\<close> where
  \<^verbatim>\<open>urlparse\<close> raises (which \<^verbatim>\<open>is_internal_link\<close> answers with \<^verbatim>\<open>False\<close>).
\<close>

definition is_internal_link :: "(string \<rightharpoonup> string) \<Rightarrow> string \<Rightarrow> string \<Rightarrow> bool" where
  "is_internal_link urlparse_netloc url domain \<longleftrightarrow>
     (if matches_any skip_patterns url then False
      else (case urlparse_netloc url of
              None \<Rightarrow> False
            | Some netloc \<Rightarrow>
                netloc = domain \<or> endswith netloc (''.'' @ domain)
                \<or> endswith domain (''.'' @ netloc)))"

text \<open>
  The \<^verbatim>\<open>if\<close>/\<^verbatim>\<open>elif\<close> chain of \<^verbatim>\<open>parse\<close> that sorts each link of a page: the
  article test first, then category, pagination and internal link; a link that passes none
  is dropped.
\<close>

datatype link_class = Article | Category | Pagination | InternalNav | Reject

definition classify :: "(string \<rightharpoonup> string) \<Rightarrow> string \<Rightarrow> string \<Rightarrow> link_class" where
  "classify urlparse_netloc url domain =
     (if is_likely_article_url url domain then Article
      else if is_category_page url domain then Category
      else if is_pagination_link url domain then Pagination
      else if is_internal_link urlparse_netloc url domain then InternalNav
      else Reject)"

section \<open>The crawl frontier of \<^verbatim>\<open>TrafilaturaSpider\<close>\<close>

text \<open>
  A request the spider yields: the \<^verbatim>\<open>url\<close> argument it passes to
  \<^verbatim>\<open>scrapy.Request\<close>, the callback, the \<^verbatim>\<open>domain\<close> and \<^verbatim>\<open>depth\<close> of the
  \<^verbatim>\<open>meta\<close>, and which \<^verbatim>\<open>yield\<close> statement issued it. \<open>req_url\<close> is the
  string the spider passes, the one it compares with \<^verbatim>\<open>self.processed_urls\<close>; the
  \<^verbatim>\<open>Request\<close> object escapes it (a space becomes \<^verbatim>\<open>%20\<close>), so two arguments that
  differ in their escaping only are fetched as one URL. Nothing below is stated about
  the escaped URL.
\<close>

datatype callback = ParseCallback | ParseArticleCallback

datatype task_kind = SeedTask | ArticleTask | CategoryTask | PaginationTask | InternalNavTask

record request =
  req_url :: string
  req_callback :: callback
  req_kind :: task_kind
  req_domain :: "string option"
  req_depth :: nat

text \<open>
  A fetched page as \<^verbatim>\<open>parse\<close> reads it: \<^verbatim>\<open>response.url\<close>,
  \<^verbatim>\<open>response.meta.get('depth', 0)\<close> and the list \<^verbatim>\<open>extract_links\<close> returns for it.
\<close>

record response =
  resp_url :: string
  resp_depth :: nat
  resp_links :: "string list"

text \<open>The attributes \<^verbatim>\<open>__init__\<close> sets that the crawl reads or writes.\<close>

record spider =
  max_articles_per_source :: nat
  max_depth :: nat
  max_pages_per_source :: nat
  site_article_count :: "string \<rightharpoonup> nat"
  site_page_count :: "string \<rightharpoonup> nat"
  processed_urls :: "string set"
  crawl_depth :: "string \<rightharpoonup> nat"

definition new_spider :: spider where
  "new_spider =
     \<lparr>max_articles_per_source = 50, max_depth = 3, max_pages_per_source = 10,
      site_article_count = Map.empty, site_page_count = Map.empty,
      processed_urls = {}, crawl_depth = Map.empty\<rparr>"

definition setdefault :: "('k \<rightharpoonup> 'v) \<Rightarrow> 'k \<Rightarrow> 'v \<Rightarrow> ('k \<rightharpoonup> 'v)" where
  "setdefault d k v = (case d k of None \<Rightarrow> d(k \<mapsto> v) | Some old \<Rightarrow> d)"

subsection \<open>\<^verbatim>\<open>start_requests\<close>\<close>

definition seed_request :: "string \<Rightarrow> request" where
  "seed_request url =
     \<lparr>req_url = url, req_callback = ParseCallback, req_kind = SeedTask,
      req_domain = None, req_depth = 0\<rparr>"

text \<open>The loop over the seed URLs: scheme added, stripped, skipped when too short.\<close>

fun seed_loop :: "string list \<Rightarrow> string set \<Rightarrow> string set \<times> request list" where
  "seed_loop [] processed = (processed, [])"
| "seed_loop (url0 # urls) processed =
     (let url1 = (if startswith url0 ''http://'' \<or> startswith url0 ''https://'' then url0
                  else ''https://'' @ url0);
          url = strip url1
      in if url = [] \<or> length url < 10 then seed_loop urls processed
         else (let (processed', requests) = seed_loop urls (insert url processed)
               in (processed', seed_request url # requests)))"

text \<open>
  \<open>urls\<close> is \<^verbatim>\<open>self.sources_to_scrape\<close> after JSON decoding; \<open>sources_file\<close> is
  what reading \<^verbatim>\<open>self.sources_path\<close> gives when no source was passed, \<open>None\<close> when
  that raises.
\<close>

definition start_requests ::
  "string list \<Rightarrow> string list option \<Rightarrow> spider \<Rightarrow> spider \<times> request list" where
  "start_requests urls sources_file self =
     (case (if urls = [] then sources_file else Some urls) of
        None \<Rightarrow> (self, [])
      | Some urls' \<Rightarrow>
          (let (processed, requests) = seed_loop urls' (processed_urls self)
           in (self\<lparr>processed_urls := processed\<rparr>, requests)))"

subsection \<open>\<^verbatim>\<open>parse\<close>\<close>

definition article_request :: "string \<Rightarrow> string \<Rightarrow> nat \<Rightarrow> request" where
  "article_request link domain current_depth =
     \<lparr>req_url = link, req_callback = ParseArticleCallback, req_kind = ArticleTask,
      req_domain = Some domain, req_depth = current_depth\<rparr>"

definition follow_request :: "task_kind \<Rightarrow> string \<Rightarrow> string \<Rightarrow> nat \<Rightarrow> request" where
  "follow_request kind link domain current_depth =
     \<lparr>req_url = link, req_callback = ParseCallback, req_kind = kind,
      req_domain = Some domain, req_depth = current_depth + 1\<rparr>"

text \<open>
  The loop \<^verbatim>\<open>for link in links\<close> with its local counter \<^verbatim>\<open>article_count\<close>: it
  yields the article requests and fills the three lists of links to follow.
\<close>

fun scan_links ::
  "(string \<rightharpoonup> string) \<Rightarrow> nat \<Rightarrow> string \<Rightarrow> nat \<Rightarrow> string list \<Rightarrow> nat
   \<Rightarrow> request list \<times> string list \<times> string list \<times> string list
   \<Rightarrow> request list \<times> string list \<times> string list \<times> string list" where
  "scan_links urlparse_netloc limit domain current_depth [] article_count acc = acc"
| "scan_links urlparse_netloc limit domain current_depth (link # links) article_count
     (requests, category_links, pagination_links, internal_links) =
     (if article_count \<ge> limit
      then (requests, category_links, pagination_links, internal_links)
      else (case classify urlparse_netloc link domain of
              Article \<Rightarrow>
                scan_links urlparse_netloc limit domain current_depth links (article_count + 1)
                  (requests @ [article_request link domain current_depth],
                   category_links, pagination_links, internal_links)
            | Category \<Rightarrow>
                scan_links urlparse_netloc limit domain current_depth links article_count
                  (requests, category_links @ [link], pagination_links, internal_links)
            | Pagination \<Rightarrow>
                scan_links urlparse_netloc limit domain current_depth links article_count
                  (requests, category_links, pagination_links @ [link], internal_links)
            | InternalNav \<Rightarrow>
                scan_links urlparse_netloc limit domain current_depth links article_count
                  (requests, category_links, pagination_links, internal_links @ [link])
            | Reject \<Rightarrow>
                scan_links urlparse_netloc limit domain current_depth links article_count
                  (requests, category_links, pagination_links, internal_links)))"

text \<open>
  One of the three loops that follow category, pagination and internal links: a link
  is requested only when it is not in \<^verbatim>\<open>self.processed_urls\<close>, and is added to it.
\<close>

fun follow_links ::
  "task_kind \<Rightarrow> string \<Rightarrow> nat \<Rightarrow> string list \<Rightarrow> string set \<Rightarrow> string set \<times> request list" where
  "follow_links kind domain current_depth [] processed = (processed, [])"
| "follow_links kind domain current_depth (link # links) processed =
     (if link \<notin> processed
      then (let (processed', requests) =
                  follow_links kind domain current_depth links (insert link processed)
            in (processed', follow_request kind link domain current_depth # requests))
      else follow_links kind domain current_depth links processed)"

definition follow_stage ::
  "task_kind \<Rightarrow> nat \<Rightarrow> string \<Rightarrow> nat \<Rightarrow> nat \<Rightarrow> string list \<Rightarrow> string set
   \<Rightarrow> string set \<times> request list" where
  "follow_stage kind cap domain current_depth depth_limit links processed =
     (if links \<noteq> [] \<and> current_depth < depth_limit
      then follow_links kind domain current_depth (take cap links) processed
      else (processed, []))"

text \<open>
  \<^verbatim>\<open>parse\<close> returns the spider's new state and the requests it yields, in order.
  \<^verbatim>\<open>get_domain\<close> is its first statement: where \<^verbatim>\<open>urlparse\<close> raises, nothing is
  yielded and nothing has changed.
\<close>

definition parse :: "(string \<rightharpoonup> string) \<Rightarrow> response \<Rightarrow> spider \<Rightarrow> spider \<times> request list" where
  "parse urlparse_netloc response self =
     (case urlparse_netloc (resp_url response) of
        None \<Rightarrow> (self, [])
      | Some domain \<Rightarrow>
          (let current_depth = resp_depth response;
               page_count = (case site_page_count self domain of None \<Rightarrow> 0 | Some n \<Rightarrow> n) + 1;
               self1 = self\<lparr>site_article_count := setdefault (site_article_count self) domain 0,
                            site_page_count := (site_page_count self)(domain \<mapsto> page_count),
                            crawl_depth := (crawl_depth self)(domain \<mapsto> current_depth)\<rparr>
           in if page_count > max_pages_per_source self then (self1, [])
              else
                (let (article_requests, category_links, pagination_links, internal_links) =
                       scan_links urlparse_netloc (max_articles_per_source self) domain
                         current_depth (resp_links response) 0 ([], [], [], []);
                     (processed1, category_requests) =
                       follow_stage CategoryTask 3 domain current_depth (max_depth self)
                         category_links (processed_urls self1);
                     (processed2, pagination_requests) =
                       follow_stage PaginationTask 2 domain current_depth (max_depth self)
                         pagination_links processed1;
                     (processed3, internal_requests) =
                       follow_stage InternalNavTask 2 domain current_depth (max_depth self)
                         internal_links processed2
                 in (self1\<lparr>processed_urls := processed3\<rparr>,
                     article_requests @ category_requests @ pagination_requests
                       @ internal_requests))))"

subsection \<open>A crawl run\<close>

text \<open>
  \<^verbatim>\<open>start_requests\<close> is a generator, and the engine may pull its later seeds after
  the first pages have been parsed. \<open>crawl_run\<close> is the schedule in which every seed is
  pulled before the first page arrives, the only one there is when the run has a single
  seed, as the runs evaluated below have. After the seeds it hands \<^verbatim>\<open>parse\<close> the
  pages the downloader delivers, in the order it delivers them. The configuration is the
  spider's state with every request issued so far.
\<close>

fun crawl ::
  "(string \<rightharpoonup> string) \<Rightarrow> response list \<Rightarrow> spider \<times> request list \<Rightarrow> spider \<times> request list" where
  "crawl urlparse_netloc [] config = config"
| "crawl urlparse_netloc (response # responses) (self, issued) =
     (let (self', requests) = parse urlparse_netloc response self
      in crawl urlparse_netloc responses (self', issued @ requests))"

definition crawl_run ::
  "(string \<rightharpoonup> string) \<Rightarrow> string list \<Rightarrow> string list option \<Rightarrow> response list
   \<Rightarrow> spider \<times> request list" where
  "crawl_run urlparse_netloc urls sources_file responses =
     crawl urlparse_netloc responses (start_requests urls sources_file new_spider)"

section \<open>Articles and the extraction chain of \<^verbatim>\<open>parse_article\<close>\<close>

text \<open>
  An article is the dictionary that \<^verbatim>\<open>parse_article\<close> appends to
  \<^verbatim>\<open>self.articles\<close> and that \<^verbatim>\<open>closed\<close> dumps as JSON: six keys, of which
  \<^verbatim>\<open>title\<close> and \<^verbatim>\<open>publish_date\<close> may hold \<^verbatim>\<open>None\<close>.
\<close>

record article =
  url :: string
  title :: "string option"
  content :: string
  publish_date :: "string option"
  domain :: string
  extraction_method :: string

text \<open>
  What \<^verbatim>\<open>parse_article\<close> reads of a fetched page, each field the answer of a library
  call on the response:
  \<^item> \<open>page_url\<close>: \<^verbatim>\<open>response.url\<close>; \<open>page_domain\<close>: \<^verbatim>\<open>response.meta.get('domain', '')\<close>;
  \<^item> \<open>page_trafilatura\<close>: what \<^verbatim>\<open>trafilatura.extract\<close> returns, \<open>None\<close> also when it
    raises (\<^verbatim>\<open>extract_with_trafilatura\<close> catches that);
  \<^item> \<open>page_css\<close>: \<^verbatim>\<open>response.css(selector).get()\<close> for each selector;
  \<^item> \<open>page_body_text\<close>: the \<^verbatim>\<open>body\<close> element after the four \<^verbatim>\<open>re.sub\<close> calls and
    the \<^verbatim>\<open>strip\<close> of \<^verbatim>\<open>extract_basic_text\<close>, \<open>None\<close> when there is no body;
  \<^item> \<open>page_publish_date\<close>: the date \<^verbatim>\<open>extract_publish_date\<close> returns, in ISO format,
    with \<open>page_days_old\<close> the days \<^verbatim>\<open>get_days_old\<close> computes for it, \<open>None\<close> when
    the subtraction of the two dates raises.
\<close>

record article_page =
  page_url :: string
  page_domain :: string
  page_trafilatura :: "string option"
  page_css :: "string \<rightharpoonup> string"
  page_body_text :: "string option"
  page_publish_date :: "string option"
  page_days_old :: "int option"

definition max_age_days :: int where
  "max_age_days = 7"

definition extract_with_trafilatura :: "article_page \<Rightarrow> string option" where
  "extract_with_trafilatura response = page_trafilatura response"

definition css_selectors :: "string list" where
  \<open>css_selectors =
     [''article'', ''.article-content'', ''.story-content'', ''.post-content'',
      ''.entry-content'', ''.content-body'', ''.article-body'', ''.story-body'',
      ''[data-testid="article-content"]'', ''.article__content'', ''.story__content'',
      ''.post__content'']\<close>

fun first_css :: "(string \<rightharpoonup> string) \<Rightarrow> string list \<Rightarrow> string option" where
  "first_css css [] = None"
| "first_css css (selector # selectors) =
     (case css selector of
        None \<Rightarrow> first_css css selectors
      | Some found \<Rightarrow>
          (if found \<noteq> [] \<and> length (strip found) > 100 then Some found
           else first_css css selectors))"

definition extract_with_css :: "article_page \<Rightarrow> string option" where
  "extract_with_css response = first_css (page_css response) css_selectors"

definition extract_basic_text :: "article_page \<Rightarrow> string option" where
  "extract_basic_text response =
     (case page_body_text response of
        None \<Rightarrow> None
      | Some text \<Rightarrow> (if length text > 100 then Some text else None))"

definition title_selectors :: "string list" where
  \<open>title_selectors =
     [''h1'', ''.article-title'', ''.story-title'', ''.post-title'', ''.entry-title'',
      ''[data-testid="article-title"]'', ''title'']\<close>

fun first_title :: "(string \<rightharpoonup> string) \<Rightarrow> string list \<Rightarrow> string option" where
  "first_title css [] = None"
| "first_title css (selector # selectors) =
     (case css (selector @ ''::text'') of
        None \<Rightarrow> first_title css selectors
      | Some found \<Rightarrow>
          (if found \<noteq> [] \<and> length (strip found) > 5 then Some (strip found)
           else first_title css selectors))"

definition extract_title :: "article_page \<Rightarrow> string option" where
  "extract_title response = first_title (page_css response) title_selectors"

text \<open>\<^verbatim>\<open>not content or len(content.strip()) < 100\<close>\<close>

definition too_short :: "string option \<Rightarrow> bool" where
  "too_short found \<longleftrightarrow>
     (case found of None \<Rightarrow> True | Some text \<Rightarrow> text = [] \<or> length (strip text) < 100)"

text \<open>
  The three tiers in order; the tier a content came from is returned with it, so that it
  can be compared with what the article records.
\<close>

datatype tier = Structured | Selector | RawText

definition extract_content :: "article_page \<Rightarrow> tier \<times> string option" where
  "extract_content response =
     (let first = extract_with_trafilatura response
      in if too_short first
         then (let second = extract_with_css response
               in if too_short second then (RawText, extract_basic_text response)
                  else (Selector, second))
         else (Structured, first))"

text \<open>
  \<^verbatim>\<open>parse_article\<close> gives the article it appends to \<^verbatim>\<open>self.articles\<close>, \<open>Inr None\<close>
  when it appends none, and \<open>Inl\<close> when \<^verbatim>\<open>is_recent_article\<close> raises.
\<close>

datatype article_error = DateArithmeticError

definition parse_article :: "article_page \<Rightarrow> article_error + article option" where
  "parse_article response =
     (case snd (extract_content response) of
        None \<Rightarrow> Inr None
      | Some text \<Rightarrow>
          (if text \<noteq> [] \<and> length (strip text) > 100
           then (case page_publish_date response of
                   None \<Rightarrow>
                     Inr (Some \<lparr>url = page_url response, title = extract_title response,
                                content = text, publish_date = None,
                                domain = page_domain response,
                                extraction_method = ''trafilatura''\<rparr>)
                 | Some date \<Rightarrow>
                     (case page_days_old response of
                        None \<Rightarrow> Inl DateArithmeticError
                      | Some days_old \<Rightarrow>
                          (if days_old \<le> max_age_days
                           then Inr (Some \<lparr>url = page_url response,
                                           title = extract_title response,
                                           content = text,
                                           publish_date = Some date,
                                           domain = page_domain response,
                                           extraction_method = ''trafilatura''\<rparr>)
                           else Inr None)))
           else Inr None))"

section \<open>The scraper cache of \<^verbatim>\<open>llm_functions.run_scraper\<close>\<close>

text \<open>
  \<^verbatim>\<open>run_scraper._cache\<close> is an attribute of the function object: absent until the
  first insertion (\<open>None\<close> here), a dictionary from tuples of sources to article lists
  afterwards. \<open>spider_runs\<close> is the log of the \<^verbatim>\<open>subprocess.run\<close> calls that started
  the spider, oldest first, each with the sources it was given.
\<close>

record scraper =
  cache :: "(string list \<rightharpoonup> article list) option"
  spider_runs :: "string list list"

text \<open>
  What the world answers when \<^verbatim>\<open>run_scraper\<close> starts the spider and then reads
  \<^verbatim>\<open>tmp/output.json\<close>: \<^verbatim>\<open>subprocess.run\<close> itself raises (no \<^verbatim>\<open>scrapy\<close>
  executable), or the file is loaded, is missing (\<^verbatim>\<open>FileNotFoundError\<close>), holds invalid
  JSON (\<^verbatim>\<open>json.JSONDecodeError\<close>), or reading it raises anything else, which the two
  \<^verbatim>\<open>except\<close> clauses do not catch.
\<close>

datatype spider_output =
    SubprocessRaises
  | Loaded "article list"
  | FileNotFound
  | InvalidJSON
  | OtherReadError

datatype scraper_error = SubprocessError | ReadError

definition clear_scraper_cache :: "scraper \<Rightarrow> scraper" where
  "clear_scraper_cache st =
     (case cache st of
        None \<Rightarrow> st
      | Some c \<Rightarrow> st\<lparr>cache := Some Map.empty\<rparr>)"

text \<open>
  \<^verbatim>\<open>if not hasattr(run_scraper, '_cache'): run_scraper._cache = {}\<close>, then
  \<^verbatim>\<open>run_scraper._cache[cache_key] = articles\<close>.
\<close>

definition cache_insert :: "string list \<Rightarrow> article list \<Rightarrow> scraper \<Rightarrow> scraper" where
  "cache_insert cache_key articles st =
     st\<lparr>cache := Some ((case cache st of None \<Rightarrow> Map.empty | Some c \<Rightarrow> c)(cache_key \<mapsto> articles))\<rparr>"

text \<open>\<^verbatim>\<open>hasattr(run_scraper, '_cache') and cache_key in run_scraper._cache\<close>, with the entry.\<close>

definition cache_lookup :: "scraper \<Rightarrow> string list \<Rightarrow> article list option" where
  "cache_lookup st cache_key = (case cache st of None \<Rightarrow> None | Some c \<Rightarrow> c cache_key)"

definition run_scraper ::
  "string list \<Rightarrow> bool \<Rightarrow> spider_output \<Rightarrow> scraper \<Rightarrow> (scraper_error + article list) \<times> scraper" where
  "run_scraper sources force_fresh world st0 =
     (let st1 = (if force_fresh then clear_scraper_cache st0 else st0);
          cache_key = sort sources
      in case cache_lookup st1 cache_key of
           Some cached \<Rightarrow> (Inr cached, st1)
         | None \<Rightarrow>
             (let st2 = st1\<lparr>spider_runs := spider_runs st1 @ [sources]\<rparr>
              in case world of
                   SubprocessRaises \<Rightarrow> (Inl SubprocessError, st2)
                 | OtherReadError \<Rightarrow> (Inl ReadError, st2)
                 | Loaded articles \<Rightarrow> (Inr articles, cache_insert cache_key articles st2)
                 | FileNotFound \<Rightarrow> (Inr [], cache_insert cache_key [] st2)
                 | InvalidJSON \<Rightarrow> (Inr [], cache_insert cache_key [] st2)))"

text \<open>
  A sequence of calls, each with its sources, its flag and the world's answer, threads
  the scraper state through \<^verbatim>\<open>run_scraper\<close>.
\<close>

fun run_calls :: "(string list \<times> bool \<times> spider_output) list \<Rightarrow> scraper \<Rightarrow> scraper" where
  "run_calls [] st = st"
| "run_calls ((sources, force_fresh, world) # calls) st =
     run_calls calls (snd (run_scraper sources force_fresh world st))"

section \<open>The relevance stage: \<^verbatim>\<open>batch_filter_articles\<close>\<close>

text \<open>
  The collaborator behind \<^verbatim>\<open>llm.invoke\<close> is a function of the number of calls made
  before, the business interest and the batch whose titles and contents the prompt
  carries. It answers with an \<^verbatim>\<open>AIMessage\<close> and its text, with something that is
  not an \<^verbatim>\<open>AIMessage\<close>, or the call raises.
\<close>

datatype llm_response = InvokeRaises | NotAIMessage | AIMessage string

type_synonym filter_llm = "nat \<Rightarrow> string \<Rightarrow> article list \<Rightarrow> llm_response"

definition BATCH_SIZE :: nat where
  "BATCH_SIZE = 5"

text \<open>\<^verbatim>\<open>range(0, n, step)\<close>\<close>

definition range_step :: "nat \<Rightarrow> nat \<Rightarrow> nat list" where
  "range_step n step = map (\<lambda>k. k * step) [0..<(n + step - 1) div step]"

text \<open>
  The loop over the lines of one answer, \<^verbatim>\<open>j < len(batch)\<close> pairing each line with
  its article. The flag says that the loop has executed \<^verbatim>\<open>return relevant_articles\<close>.
\<close>

fun vote_loop :: "(string \<times> article) list \<Rightarrow> article list \<Rightarrow> article list \<times> bool" where
  "vote_loop [] relevant_articles = (relevant_articles, False)"
| "vote_loop ((line, voted) # rest) relevant_articles =
     (if contains ''Yes'' (strip line)
      then (let relevant_articles' = relevant_articles @ [voted]
            in if length relevant_articles' \<ge> 5 then (relevant_articles', True)
               else vote_loop rest relevant_articles')
      else vote_loop rest relevant_articles)"

text \<open>
  The loop over the batches. The log holds one entry for each \<^verbatim>\<open>llm.invoke\<close>, oldest
  first: the batch sent and the length \<^verbatim>\<open>relevant_articles\<close> had when it was sent.
\<close>

fun batch_loop ::
  "filter_llm \<Rightarrow> string \<Rightarrow> article list \<Rightarrow> nat list \<Rightarrow> article list
   \<Rightarrow> (article list \<times> nat) list \<Rightarrow> article list \<times> (article list \<times> nat) list" where
  "batch_loop llm business_interest articles [] relevant_articles calls =
     (relevant_articles, calls)"
| "batch_loop llm business_interest articles (i # starts) relevant_articles calls =
     (let batch = take BATCH_SIZE (drop i articles);
          calls' = calls @ [(batch, length relevant_articles)]
      in case llm (length calls) business_interest batch of
           InvokeRaises \<Rightarrow>
             batch_loop llm business_interest articles starts relevant_articles calls'
         | NotAIMessage \<Rightarrow>
             batch_loop llm business_interest articles starts relevant_articles calls'
         | AIMessage text \<Rightarrow>
             (let lines = split_on (CHR 0x0A) (strip text);
                  (relevant_articles', returned) = vote_loop (zip lines batch) relevant_articles
              in if returned then (relevant_articles', calls')
                 else batch_loop llm business_interest articles starts relevant_articles' calls'))"

definition batch_filter_articles ::
  "article list \<Rightarrow> string \<Rightarrow> filter_llm \<Rightarrow> article list \<times> (article list \<times> nat) list" where
  "batch_filter_articles articles business_interest llm =
     (if articles = [] then ([], [])
      else batch_loop llm business_interest articles
             (range_step (length articles) BATCH_SIZE) [] [])"

section \<open>The pipeline state and its stages\<close>

text \<open>
  The dictionary the graph threads through its nodes. \<^verbatim>\<open>preprocess\<close> reads
  \<^verbatim>\<open>state.get("force_fresh", False)\<close>: the key may be absent.
\<close>

record MyState =
  business_interest :: string
  sources :: "string list"
  articles :: "article list"
  relevant_articles :: "article list"
  summary :: string
  force_fresh :: "bool option"

text \<open>\<^verbatim>\<open>preprocess\<close>: any exception of \<^verbatim>\<open>run_scraper\<close> leaves an empty article list.\<close>

definition preprocess :: "spider_output \<Rightarrow> MyState \<times> scraper \<Rightarrow> MyState \<times> scraper" where
  "preprocess world = (\<lambda>(state, st).
     (case run_scraper (sources state) (case force_fresh state of None \<Rightarrow> False | Some b \<Rightarrow> b)
             world st of
        (Inr found, st') \<Rightarrow> (state\<lparr>articles := found\<rparr>, st')
      | (Inl err, st') \<Rightarrow> (state\<lparr>articles := []\<rparr>, st')))"

subsection \<open>\<^verbatim>\<open>summarize_articles_async\<close>\<close>

text \<open>
  The summarizing collaborator: a function of the number of calls made before and of the
  article whose title and content the prompt carries; it answers with a message or the
  call raises.
\<close>

datatype summary_response = SummaryRaises | SummaryMessage string

type_synonym summary_llm = "nat \<Rightarrow> article \<Rightarrow> summary_response"

text \<open>
  The two pictographs of the report's headings, U+1F4F0 and U+1F4C4. They lie beyond the
  8-bit characters and are written as their four UTF-8 bytes; they occur in the lines of
  the report only, whose length the program never takes.
\<close>

definition newspaper :: string where
  "newspaper = [CHR 0xF0, CHR 0x9F, CHR 0x93, CHR 0xB0]"

definition page_facing_up :: string where
  "page_facing_up = [CHR 0xF0, CHR 0x9F, CHR 0x93, CHR 0x84]"

text \<open>
  \<^verbatim>\<open>summary = response.content.strip()\<close>, and the prefix \<^verbatim>\<open>Summary:\<close> cut off.
\<close>

definition clean_summary :: "string \<Rightarrow> string" where
  "clean_summary text =
     (let stripped = strip text
      in if startswith stripped ''Summary:'' then strip (drop 8 stripped) else stripped)"

text \<open>
  The \<^verbatim>\<open>except\<close> branch:
  \<^verbatim>\<open>sentences = content.split('.')[:3]\<close> and
  \<^verbatim>\<open>'. '.join(sentences) + '.' if sentences else content[:200] + "..."\<close>.
\<close>

definition fallback_summary :: "string \<Rightarrow> string" where
  "fallback_summary text =
     (let sentences = take 3 (split_on (CHR ''.'') text)
      in if sentences \<noteq> [] then join ''. '' sentences @ ''.''
         else take 200 text @ ''...'')"

text \<open>
  The loop over the filtered articles, numbered from \<open>i\<close>. It gives the lines of the
  report and the articles the collaborator was called for, in order.
\<close>

fun summarize_loop ::
  "summary_llm \<Rightarrow> nat \<Rightarrow> nat \<Rightarrow> article list \<Rightarrow> string list \<times> article list" where
  "summarize_loop llm ncalls i [] = ([], [])"
| "summarize_loop llm ncalls i (a # rest) =
     (let heading = [''## '' @ page_facing_up @ '' Article '' @ str_nat i, ''''];
          title_lines =
            (case title a of
               None \<Rightarrow> []
             | Some t \<Rightarrow> (if t \<noteq> [] then [''**Title:** '' @ t, ''''] else []));
          source_lines =
            [''**Source:** '' @ url a]
            @ (case publish_date a of
                 None \<Rightarrow> []
               | Some d \<Rightarrow> (if d \<noteq> [] then [''**Published:** '' @ d] else []))
            @ [''''];
          called = (content a \<noteq> []);
          summary_lines =
            (if called
             then (case llm ncalls a of
                     SummaryMessage text \<Rightarrow> [''**Summary:**'', '''', clean_summary text]
                   | SummaryRaises \<Rightarrow> [''**Summary:**'', '''', fallback_summary (content a)])
             else []);
          (more_lines, more_calls) =
            summarize_loop llm (if called then ncalls + 1 else ncalls) (i + 1) rest
      in (heading @ title_lines @ source_lines @ summary_lines @ ['''', ''---'', '''']
            @ more_lines,
          (if called then [a] else []) @ more_calls))"

definition summarize_articles_async ::
  "summary_llm \<Rightarrow> MyState \<Rightarrow> MyState \<times> article list" where
  "summarize_articles_async llm state =
     (if relevant_articles state = []
      then (state\<lparr>summary := ''No relevant information found for this topic.''\<rparr>, [])
      else
        (let filtered_articles =
               filter (\<lambda>a. \<not> length (content a) < 100) (relevant_articles state)
         in if filtered_articles = []
            then (state\<lparr>summary :=
                     ''No relevant articles found after filtering out generic content.''\<rparr>, [])
            else
              (let header =
                     [''# '' @ newspaper @ '' Latest News Summary'', '''',
                      ''**Topic:** '' @ business_interest state,
                      ''**Articles Found:** '' @ str_nat (length filtered_articles),
                      '''', ''---'', ''''];
                   (blocks, calls) = summarize_loop llm 0 1 filtered_articles
               in (state\<lparr>summary :=
                      join [CHR 0x0A] (header @ blocks @ [''*Generated by News Analyzer*''])\<rparr>,
                   calls))))"

definition show_summary :: "MyState \<Rightarrow> MyState" where
  "show_summary state = state"

section \<open>Requests of a run, by kind\<close>

text \<open>The URLs of the article requests issued for a domain, in the order of issue.\<close>

definition article_urls :: "string \<Rightarrow> request list \<Rightarrow> string list" where
  "article_urls d requests =
     map req_url (filter (\<lambda>r. req_kind r = ArticleTask \<and> req_domain r = Some d) requests)"

section \<open>Sample inputs\<close>

definition sample_article :: article where
  "sample_article =
     \<lparr>url = ''https://a.com/story/1'', title = Some ''Qatar GDP grows'',
      content = ''Growth.'', publish_date = None, domain = ''a.com'',
      extraction_method = ''trafilatura''\<rparr>"

definition fresh_scraper :: scraper where
  "fresh_scraper = \<lparr>cache = None, spider_runs = []\<rparr>"

definition scraper_ab :: scraper where
  "scraper_ab =
     \<lparr>cache = Some [[''a.com'', ''b.com''] \<mapsto> [sample_article]],
      spider_runs = [[''b.com'', ''a.com'']]\<rparr>"

definition scraper_b :: scraper where
  "scraper_b =
     \<lparr>cache = Some [[''b.com''] \<mapsto> [sample_article]], spider_runs = [[''b.com'']]\<rparr>"

text \<open>The scraper after a run for a source list that names one source twice.\<close>

definition scraper_aa :: scraper where
  "scraper_aa =
     \<lparr>cache = Some [[''a.com'', ''a.com''] \<mapsto> [sample_article]],
      spider_runs = [[''a.com'', ''a.com'']]\<rparr>"

definition scraper_aa_a :: scraper where
  "scraper_aa_a =
     \<lparr>cache = Some [[''a.com'', ''a.com''] \<mapsto> [sample_article], [''a.com''] \<mapsto> []],
      spider_runs = [[''a.com'', ''a.com''], [''a.com'']]\<rparr>"

text \<open>
  The scraper after a failed run for \<^verbatim>\<open>a.com\<close>, a forced run for \<^verbatim>\<open>b.com\<close> and
  another run for \<^verbatim>\<open>a.com\<close>.
\<close>

definition scraper_a_b_a :: scraper where
  "scraper_a_b_a =
     \<lparr>cache = Some [[''b.com''] \<mapsto> [sample_article], [''a.com''] \<mapsto> [sample_article]],
      spider_runs = [[''a.com''], [''b.com''], [''a.com'']]\<rparr>"

definition sample_state :: MyState where
  "sample_state =
     \<lparr>business_interest = ''Qatar economy'', sources = [''a.com''], articles = [sample_article],
      relevant_articles = [], summary = [], force_fresh = None\<rparr>"

definition silent_summarizer :: summary_llm where
  "silent_summarizer n a = SummaryRaises"

definition numbered_article :: "nat \<Rightarrow> article" where
  "numbered_article n =
     \<lparr>url = ''https://a.com/story/'' @ str_nat n, title = Some (''Story '' @ str_nat n),
      content = ''Growth.'', publish_date = None, domain = ''a.com'',
      extraction_method = ''trafilatura''\<rparr>"

definition seven_articles :: "article list" where
  "seven_articles = map numbered_article [1, 2, 3, 4, 5, 6, 7]"

definition yes_llm :: filter_llm where
  "yes_llm n interest batch = AIMessage (join [CHR 0x0A] (map (\<lambda>a. ''Yes'') batch))"

text \<open>\<^verbatim>\<open>urlparse(url).netloc\<close> on the URLs of the examples.\<close>

definition example_netloc :: "string \<rightharpoonup> string" where
  "example_netloc =
     map_of
       [(''https://example.com/login'', ''example.com''),
        (''https://example.com/business/#top'', ''example.com''),
        (''https://example.com/search?page=2'', ''example.com''),
        (''https://e.com'', ''e.com''),
        (''https://e.com/world/'', ''e.com'')]"

text \<open>
  A page on which \<^verbatim>\<open>trafilatura.extract\<close> finds nothing and the selector
  \<^verbatim>\<open>article\<close> finds an element of 169 characters. No date is found on it, so
  \<^verbatim>\<open>extract_publish_date\<close> returns the time of the crawl, which is zero days old.
\<close>

definition selector_text :: string where
  "selector_text = ''<article>'' @ replicate 150 (CHR ''x'') @ ''</article>''"

definition selector_page :: article_page where
  "selector_page =
     \<lparr>page_url = ''https://e.com/story/1'', page_domain = ''e.com'',
      page_trafilatura = None, page_css = [''article'' \<mapsto> selector_text],
      page_body_text = None, page_publish_date = Some ''2026-11-04T10:00:00.000000'',
      page_days_old = Some 0\<rparr>"

text \<open>An article of 300 characters without a full stop, and a state that holds it.\<close>

definition dotless :: string where
  "dotless = replicate 300 (CHR ''a'')"

definition dotless_article :: article where
  "dotless_article =
     \<lparr>url = ''https://e.com/story/1'', title = Some ''Qatar GDP grows'',
      content = dotless, publish_date = None, domain = ''e.com'',
      extraction_method = ''trafilatura''\<rparr>"

definition dotless_state :: MyState where
  "dotless_state =
     \<lparr>business_interest = ''Qatar economy'', sources = [''e.com''], articles = [dotless_article],
      relevant_articles = [dotless_article], summary = [], force_fresh = None\<rparr>"

text \<open>
  Two pages of one domain: the home page, with a link to a section and fifty links to
  stories, and the section page it leads to, with fifty links to other stories.
\<close>

definition story_links :: "nat list \<Rightarrow> string list" where
  "story_links ns = map (\<lambda>n. ''https://e.com/story/'' @ str_nat n) ns"

definition first_stories :: "string list" where
  "first_stories = story_links [1..<51]"

definition more_stories :: "string list" where
  "more_stories = story_links [51..<101]"

definition home_page :: response where
  "home_page =
     \<lparr>resp_url = ''https://e.com'', resp_depth = 0,
      resp_links = ''https://e.com/world/'' # first_stories\<rparr>"

definition world_page :: response where
  "world_page =
     \<lparr>resp_url = ''https://e.com/world/'', resp_depth = 1, resp_links = more_stories\<rparr>"

text \<open>Two small pages that link to the same story.\<close>

definition small_home_page :: response where
  "small_home_page =
     \<lparr>resp_url = ''https://e.com'', resp_depth = 0,
      resp_links = [''https://e.com/world/'', ''https://e.com/story/1'']\<rparr>"

definition small_world_page :: response where
  "small_world_page =
     \<lparr>resp_url = ''https://e.com/world/'', resp_depth = 1,
      resp_links = [''https://e.com/story/1'']\<rparr>"

text \<open>The spider after \<^verbatim>\<open>start_requests\<close> and after each of the two pages.\<close>

definition spider_started :: spider where
  "spider_started = new_spider\<lparr>processed_urls := {''https://e.com''}\<rparr>"

definition spider_after_home :: spider where
  "spider_after_home =
     new_spider
       \<lparr>site_article_count := [''e.com'' \<mapsto> 0], site_page_count := [''e.com'' \<mapsto> 1],
        processed_urls := {''https://e.com'', ''https://e.com/world/''},
        crawl_depth := [''e.com'' \<mapsto> 0]\<rparr>"

definition spider_after_world :: spider where
  "spider_after_world =
     new_spider
       \<lparr>site_article_count := [''e.com'' \<mapsto> 0], site_page_count := [''e.com'' \<mapsto> 2],
        processed_urls := {''https://e.com'', ''https://e.com/world/''},
        crawl_depth := [''e.com'' \<mapsto> 1]\<rparr>"

section \<open>Matching without regard to case\<close>

lemma ascii_lower_cases:
  "ascii_lower c = c \<or>
   (c \<in> set ''ABCDEFGHIJKLMNOPQRSTUVWXYZ'' \<and> ascii_lower c \<in> set ''abcdefghijklmnopqrstuvwxyz'')"
proof (cases "map_of (zip ''ABCDEFGHIJKLMNOPQRSTUVWXYZ'' ''abcdefghijklmnopqrstuvwxyz'') c")
  case None
  then have "ascii_lower c = c" by (simp only: ascii_lower_def option.case)
  then show ?thesis by (rule disjI1)
next
  case (Some l)
  then have "(c, l) \<in> set (zip ''ABCDEFGHIJKLMNOPQRSTUVWXYZ'' ''abcdefghijklmnopqrstuvwxyz'')"
    by (rule map_of_SomeD)
  then have "c \<in> set ''ABCDEFGHIJKLMNOPQRSTUVWXYZ''" "l \<in> set ''abcdefghijklmnopqrstuvwxyz''"
    by (rule set_zip_leftD, rule set_zip_rightD)
  moreover from Some have "ascii_lower c = l" by (simp only: ascii_lower_def option.case)
  ultimately show ?thesis by blast
qed

lemma letter_not_digit:
  "c \<in> set ''ABCDEFGHIJKLMNOPQRSTUVWXYZ'' \<or> c \<in> set ''abcdefghijklmnopqrstuvwxyz''
     \<Longrightarrow> c \<notin> set ''0123456789'' \<and> c \<noteq> CHR 0x0A"
  by auto

lemma ascii_lower_digit:
  "ascii_lower c \<in> set ''0123456789'' \<longleftrightarrow> c \<in> set ''0123456789''"
  using ascii_lower_cases [of c] letter_not_digit [of c] letter_not_digit [of "ascii_lower c"]
  by (auto simp del: set_simps)

lemma ascii_lower_newline: "ascii_lower c = CHR 0x0A \<longleftrightarrow> c = CHR 0x0A"
  using ascii_lower_cases [of c] letter_not_digit [of c] letter_not_digit [of "ascii_lower c"]
  by (auto simp del: set_simps)

lemma atom_ok_lowered: "lower_atom a \<Longrightarrow> atom_ok a c = atom_exact a (ascii_lower c)"
proof (cases a)
  case (Lit p)
  assume "lower_atom a"
  with Lit show ?thesis by simp
next
  case Digit
  then show ?thesis using ascii_lower_digit [of c] by (simp del: set_simps)
next
  case LetterOrDash
  then show ?thesis by simp
qed

lemma eos_lowered:
  "(map ascii_lower s = [] \<or> map ascii_lower s = [CHR 0x0A]) \<longleftrightarrow> (s = [] \<or> s = [CHR 0x0A])"
  by (cases s) (auto simp: ascii_lower_newline)

lemma match_here_lowered:
  "list_all lower_item p \<Longrightarrow> match_here p s = match_exact p (map ascii_lower s)"
proof (induction p s rule: match_here.induct)
  case (2 r s)
  then show ?case using eos_lowered [of s] by simp
qed (simp_all add: atom_ok_lowered)

lemma re_search_lowered:
  "list_all lower_item p \<Longrightarrow> re_search p s = search_exact p (map ascii_lower s)"
proof (induction s)
  case Nil
  then show ?case using match_here_lowered [of p "[]"] by simp
next
  case (Cons c s)
  then show ?case using match_here_lowered [of p "c # s"] by simp
qed

lemma matches_any_lowered_eq:
  "list_all (list_all lower_item) ps \<Longrightarrow> matches_any ps u = matches_any_lowered ps u"
  by (induction ps)
    (simp_all add: matches_any_def matches_any_lowered_def Let_def re_search_lowered)

lemma skip_patterns_lower: "list_all (list_all lower_item) skip_patterns"
  by code_simp

lemma article_patterns_lower: "list_all (list_all lower_item) article_patterns"
  by code_simp

lemma category_patterns_lower: "list_all (list_all lower_item) category_patterns"
  by code_simp

lemma pagination_patterns_lower: "list_all (list_all lower_item) pagination_patterns"
  by code_simp

lemma matches_skip: "matches_any skip_patterns u = matches_any_lowered skip_patterns u"
  by (rule matches_any_lowered_eq [OF skip_patterns_lower])

lemma is_likely_article_url_lowered [code]:
  "is_likely_article_url u d \<longleftrightarrow>
     (if matches_any_lowered skip_patterns u then False
      else if matches_any_lowered article_patterns u then True
      else length u > 50)"
  by (simp add: is_likely_article_url_def matches_any_lowered_eq skip_patterns_lower
        article_patterns_lower)

lemma is_category_page_lowered [code]:
  "is_category_page u d \<longleftrightarrow> matches_any_lowered category_patterns u"
  by (simp add: is_category_page_def matches_any_lowered_eq category_patterns_lower)

lemma is_pagination_link_lowered [code]:
  "is_pagination_link u d \<longleftrightarrow> matches_any_lowered pagination_patterns u"
  by (simp add: is_pagination_link_def matches_any_lowered_eq pagination_patterns_lower)

lemma is_internal_link_lowered [code]:
  "is_internal_link nl u d \<longleftrightarrow>
     (if matches_any_lowered skip_patterns u then False
      else (case nl u of
              None \<Rightarrow> False
            | Some netloc \<Rightarrow>
                netloc = d \<or> endswith netloc (''.'' @ d) \<or> endswith d (''.'' @ netloc)))"
  by (simp add: is_internal_link_def matches_any_lowered_eq skip_patterns_lower)

section \<open>Link classification\<close>

text \<open>
  C1, as the code has it. The skip patterns are tested inside \<^verbatim>\<open>is_likely_article_url\<close>
  and \<^verbatim>\<open>is_internal_link\<close> only: a URL that matches one is never an article and never
  an internal link, but \<^verbatim>\<open>is_category_page\<close> and \<^verbatim>\<open>is_pagination_link\<close> still
  decide on it, and it is dropped when neither accepts it.
\<close>

theorem skip_pattern_classification:
  assumes "matches_any skip_patterns u"
  shows "classify nl u d =
           (if is_category_page u d then Category
            else if is_pagination_link u d then Pagination
            else Reject)"
  using assms by (simp add: classify_def is_likely_article_url_def is_internal_link_def)

lemma login_skipped: "matches_any skip_patterns ''https://example.com/login''"
  unfolding matches_skip by code_simp

lemma login_no_category: "\<not> is_category_page ''https://example.com/login'' ''example.com''"
  by code_simp

lemma login_no_pagination: "\<not> is_pagination_link ''https://example.com/login'' ''example.com''"
  by code_simp

theorem skip_pattern_classification_witness:
  "matches_any skip_patterns ''https://example.com/login'' \<and>
   classify example_netloc ''https://example.com/login'' ''example.com'' = Reject"
  using skip_pattern_classification [OF login_skipped, of example_netloc "''example.com''"]
    login_skipped login_no_category login_no_pagination
  by simp

lemma anchor_skipped: "matches_any skip_patterns ''https://example.com/business/#top''"
  unfolding matches_skip by code_simp

lemma anchor_category: "is_category_page ''https://example.com/business/#top'' ''example.com''"
  by code_simp

lemma search_skipped: "matches_any skip_patterns ''https://example.com/search?page=2''"
  unfolding matches_skip by code_simp

lemma search_no_category:
  "\<not> is_category_page ''https://example.com/search?page=2'' ''example.com''"
  by code_simp

lemma search_pagination:
  "is_pagination_link ''https://example.com/search?page=2'' ''example.com''"
  by code_simp

text \<open>
  The claim as stated fails: a URL with a fragment under \<^verbatim>\<open>/business/\<close> is followed
  as a category page, and a search page with a page number as a pagination page.
\<close>

theorem skip_pattern_counterexample:
  "matches_any skip_patterns ''https://example.com/business/#top'' \<and>
   classify example_netloc ''https://example.com/business/#top'' ''example.com'' = Category \<and>
   matches_any skip_patterns ''https://example.com/search?page=2'' \<and>
   classify example_netloc ''https://example.com/search?page=2'' ''example.com'' = Pagination"
  using anchor_skipped anchor_category search_skipped search_no_category search_pagination
  by (simp add: classify_def is_likely_article_url_def)

section \<open>Two runs\<close>

lemma scan_links_all_articles:
  assumes "list_all (\<lambda>l. is_likely_article_url l d) ls" and "c + length ls \<le> lim"
  shows "scan_links nl lim d n ls c (rs, cs, ps, is)
           = (rs @ map (\<lambda>l. article_request l d n) ls, cs, ps, is)"
  using assms
proof (induction ls arbitrary: c rs)
  case Nil
  then show ?case by simp
next
  case (Cons l ls)
  from Cons.prems have art: "classify nl l d = Article" and c: "\<not> c \<ge> lim"
    by (simp_all add: classify_def)
  from Cons.prems have "list_all (\<lambda>l. is_likely_article_url l d) ls" "(c + 1) + length ls \<le> lim"
    by simp_all
  from Cons.IH [OF this] art c show ?case by simp
qed

lemma first_stories_articles:
  "list_all (\<lambda>l. is_likely_article_url l ''e.com'') first_stories"
  by code_simp

lemma more_stories_articles:
  "list_all (\<lambda>l. is_likely_article_url l ''e.com'') more_stories"
  by code_simp

lemma world_is_category: "classify example_netloc ''https://e.com/world/'' ''e.com'' = Category"
  by code_simp

lemma story_is_article: "classify example_netloc ''https://e.com/story/1'' ''e.com'' = Article"
  by code_simp

lemma length_first_stories: "length first_stories = 50"
  by (simp add: first_stories_def story_links_def)

lemma length_more_stories: "length more_stories = 50"
  by (simp add: more_stories_def story_links_def)

lemma started: "start_requests [''e.com''] None new_spider
                  = (spider_started, [seed_request ''https://e.com''])"
  by (simp add: start_requests_def startswith_def strip_def isspace_def Let_def new_spider_def
        spider_started_def)

lemma netloc_home: "example_netloc ''https://e.com'' = Some ''e.com''"
  by (simp add: example_netloc_def)

lemma netloc_world: "example_netloc ''https://e.com/world/'' = Some ''e.com''"
  by (simp add: example_netloc_def)

lemma scan_first_stories:
  "scan_links nl 50 ''e.com'' n first_stories 0 (rs, cs, ps, is)
     = (rs @ map (\<lambda>l. article_request l ''e.com'' n) first_stories, cs, ps, is)"
  by (rule scan_links_all_articles [OF first_stories_articles])
    (simp add: length_first_stories)

lemma scan_more_stories:
  "scan_links nl 50 ''e.com'' n more_stories 0 (rs, cs, ps, is)
     = (rs @ map (\<lambda>l. article_request l ''e.com'' n) more_stories, cs, ps, is)"
  by (rule scan_links_all_articles [OF more_stories_articles])
    (simp add: length_more_stories)

lemma parse_home:
  "parse example_netloc home_page spider_started
     = (spider_after_home,
        map (\<lambda>l. article_request l ''e.com'' 0) (first_stories)
        @ [follow_request CategoryTask ''https://e.com/world/'' ''e.com'' 0])"
  by (simp add: parse_def netloc_home home_page_def spider_started_def new_spider_def
        setdefault_def world_is_category scan_first_stories follow_stage_def
        spider_after_home_def insert_commute)

lemma parse_world:
  "parse example_netloc world_page spider_after_home
     = (spider_after_world,
        map (\<lambda>l. article_request l ''e.com'' 1) (more_stories))"
  by (simp add: parse_def netloc_world world_page_def spider_after_home_def new_spider_def
        setdefault_def scan_more_stories follow_stage_def spider_after_world_def
        numeral_2_eq_2)

lemma article_urls_append [simp]:
  "article_urls d (xs @ ys) = article_urls d xs @ article_urls d ys"
  by (simp add: article_urls_def)

lemma article_urls_articles:
  "article_urls d (map (\<lambda>l. article_request l d n) ls) = ls"
  by (induction ls) (simp_all add: article_urls_def article_request_def)

text \<open>
  C2 at a run over two pages of one domain. The counter \<^verbatim>\<open>article_count\<close> starts
  at zero on every page and \<^verbatim>\<open>site_article_count\<close> is never increased: with the limit
  at its default of 50, the run issues 100 article requests for the domain.
\<close>

theorem article_cap_is_per_page:
  "max_articles_per_source new_spider = 50 \<and>
   article_urls ''e.com''
     (snd (crawl_run example_netloc [''e.com''] None [home_page, world_page]))
     = first_stories @ more_stories \<and>
   length (article_urls ''e.com''
     (snd (crawl_run example_netloc [''e.com''] None [home_page, world_page]))) = 100 \<and>
   site_article_count
     (fst (crawl_run example_netloc [''e.com''] None [home_page, world_page])) ''e.com''
     = Some 0"
proof -
  have run: "crawl_run example_netloc [''e.com''] None [home_page, world_page]
     = (spider_after_world,
        [seed_request ''https://e.com'']
        @ (map (\<lambda>l. article_request l ''e.com'' 0) (first_stories)
           @ [follow_request CategoryTask ''https://e.com/world/'' ''e.com'' 0])
        @ map (\<lambda>l. article_request l ''e.com'' 1) (more_stories))"
    by (simp add: crawl_run_def started parse_home parse_world)
  have urls: "article_urls ''e.com''
     (snd (crawl_run example_netloc [''e.com''] None [home_page, world_page]))
     = first_stories @ more_stories"
  proof -
    have a: "article_urls ''e.com'' [seed_request ''https://e.com''] = []"
      by (simp add: article_urls_def seed_request_def)
    have b: "article_urls ''e.com''
               [follow_request CategoryTask ''https://e.com/world/'' ''e.com'' 0] = []"
      by (simp add: article_urls_def follow_request_def)
    show ?thesis
      unfolding run snd_conv article_urls_append a b article_urls_articles by simp
  qed
  have cap: "max_articles_per_source new_spider = 50" by (simp add: new_spider_def)
  have count: "site_article_count
     (fst (crawl_run example_netloc [''e.com''] None [home_page, world_page])) ''e.com''
     = Some 0"
    unfolding run by (simp add: spider_after_world_def)
  from urls cap count show ?thesis
    by (simp add: length_first_stories length_more_stories)
qed

lemma parse_small_home:
  "parse example_netloc small_home_page spider_started
     = (spider_after_home,
        [article_request ''https://e.com/story/1'' ''e.com'' 0,
         follow_request CategoryTask ''https://e.com/world/'' ''e.com'' 0])"
  by (simp add: parse_def netloc_home small_home_page_def spider_started_def new_spider_def
        setdefault_def world_is_category story_is_article follow_stage_def
        spider_after_home_def insert_commute)

lemma parse_small_world:
  "parse example_netloc small_world_page spider_after_home
     = (spider_after_world, [article_request ''https://e.com/story/1'' ''e.com'' 1])"
  by (simp add: parse_def netloc_world small_world_page_def spider_after_home_def
        new_spider_def setdefault_def story_is_article follow_stage_def
        spider_after_world_def numeral_2_eq_2)

lemma small_run:
  "crawl_run example_netloc [''e.com''] None [small_home_page, small_world_page]
     = (spider_after_world,
        [seed_request ''https://e.com'',
         article_request ''https://e.com/story/1'' ''e.com'' 0,
         follow_request CategoryTask ''https://e.com/world/'' ''e.com'' 0,
         article_request ''https://e.com/story/1'' ''e.com'' 1])"
  by (simp add: crawl_run_def started parse_small_home parse_small_world)

text \<open>
  C3 at a run in which two pages link to the same story. The three loops that follow
  category, pagination and internal links test \<^verbatim>\<open>self.processed_urls\<close> and add to
  it, and \<^verbatim>\<open>start_requests\<close> adds each seed; the loop that yields the article
  requests does neither. The run issues two article requests for the story, and at its
  end the visited set holds the seed and the section page but not the story.
\<close>

theorem article_requested_twice:
  "article_urls ''e.com''
     (snd (crawl_run example_netloc [''e.com''] None [small_home_page, small_world_page]))
     = [''https://e.com/story/1'', ''https://e.com/story/1''] \<and>
   processed_urls
     (fst (crawl_run example_netloc [''e.com''] None [small_home_page, small_world_page]))
     = {''https://e.com'', ''https://e.com/world/''} \<and>
   ''https://e.com/story/1'' \<notin>
     processed_urls
       (fst (crawl_run example_netloc [''e.com''] None [small_home_page, small_world_page]))"
  unfolding small_run
  by (simp add: article_urls_def seed_request_def article_request_def follow_request_def
        spider_after_world_def)

section \<open>The extraction chain\<close>

lemma strip_no_space:
  assumes "s \<noteq> []" and "\<not> isspace (hd s)" and "\<not> isspace (last s)"
  shows "strip s = s"
proof -
  from assms(1,2) have a: "dropWhile isspace s = s"
    by (cases s) auto
  from assms(1,3) have "dropWhile isspace (rev s) = rev s"
    by (cases "rev s") (auto simp: last_rev [symmetric] simp del: last_rev)
  with a show ?thesis by (simp add: strip_def)
qed

lemma strip_selector_text: "strip selector_text = selector_text"
  by (rule strip_no_space) (simp_all add: selector_text_def isspace_def)

lemma length_selector_text: "length selector_text = 169"
  by (simp add: selector_text_def)

text \<open>Whatever tier the content came from, the article records \<^verbatim>\<open>'trafilatura'\<close>.\<close>

lemma parse_article_method:
  assumes "parse_article page = Inr (Some a)"
  shows "extraction_method a = ''trafilatura''"
  using assms
  by (auto simp: parse_article_def split: option.splits if_splits)

text \<open>
  C4 at a page whose content comes from the selector tier: the article that
  \<^verbatim>\<open>parse_article\<close> stores carries the structured tier's name.
\<close>

theorem selector_content_recorded_as_trafilatura:
  "extract_content selector_page = (Selector, Some selector_text) \<and>
   parse_article selector_page =
     Inr (Some \<lparr>url = ''https://e.com/story/1'', title = None, content = selector_text,
                publish_date = Some ''2026-11-04T10:00:00.000000'', domain = ''e.com'',
                extraction_method = ''trafilatura''\<rparr>)"
proof -
  have css: "extract_with_css selector_page = Some selector_text"
    by (simp add: extract_with_css_def css_selectors_def selector_page_def
          strip_selector_text length_selector_text)
      (simp add: selector_text_def)
  have short: "too_short (extract_with_trafilatura selector_page)"
    by (simp add: too_short_def extract_with_trafilatura_def selector_page_def)
  have long: "\<not> too_short (Some selector_text)"
    by (simp add: too_short_def strip_selector_text length_selector_text)
      (simp add: selector_text_def)
  have content: "extract_content selector_page = (Selector, Some selector_text)"
    using css short long by (simp add: extract_content_def Let_def)
  have no_title: "extract_title selector_page = None"
    by (simp add: extract_title_def title_selectors_def selector_page_def)
  have nonempty: "selector_text \<noteq> []" by (simp add: selector_text_def)
  have "parse_article selector_page =
     Inr (Some \<lparr>url = ''https://e.com/story/1'', title = None, content = selector_text,
                publish_date = Some ''2026-11-04T10:00:00.000000'', domain = ''e.com'',
                extraction_method = ''trafilatura''\<rparr>)"
    using content no_title nonempty
    by (simp add: parse_article_def strip_selector_text length_selector_text)
      (simp add: selector_page_def max_age_days_def)
  with content show ?thesis by simp
qed

section \<open>The scraper cache\<close>

lemma sort_mset_eq:
  fixes xs ys :: "string list"
  shows "mset xs = mset ys \<Longrightarrow> sort xs = sort ys"
  by (metis properties_for_sort mset_sort sorted_sort)

lemma run_scraper_Inr_cached:
  assumes "run_scraper srcs ff w st = (Inr arts, st')"
  shows "cache_lookup st' (sort srcs) = Some arts"
  using assms
  by (auto simp: run_scraper_def Let_def cache_lookup_def cache_insert_def
           split: option.splits spider_output.splits if_splits)

lemma run_scraper_hit:
  assumes "cache_lookup st (sort srcs) = Some arts"
  shows "run_scraper srcs False w st = (Inr arts, st)"
  using assms by (simp add: run_scraper_def Let_def)

lemma run_scraper_keeps_entry:
  assumes "cache_lookup st k = Some arts"
  shows "cache_lookup (snd (run_scraper srcs False w st)) k = Some arts"
  using assms
  by (auto simp: run_scraper_def Let_def cache_lookup_def cache_insert_def
           split: option.splits spider_output.splits)

lemma run_calls_keeps_entry:
  assumes "list_all (\<lambda>(s, f, x). \<not> f) later" and "cache_lookup st k = Some arts"
  shows "cache_lookup (run_calls later st) k = Some arts"
  using assms
proof (induction later arbitrary: st)
  case Nil
  then show ?case by simp
next
  case (Cons c later)
  obtain s f x where c: "c = (s, f, x)" by (cases c)
  with Cons.prems have nf: "\<not> f" and rest: "list_all (\<lambda>(s, f, x). \<not> f) later" by auto
  from nf Cons.prems(2) have "cache_lookup (snd (run_scraper s f x st)) k = Some arts"
    by (simp add: run_scraper_keeps_entry)
  with Cons.IH rest show ?case by (simp add: c)
qed

lemma sort_ba: "sort [''b.com'', ''a.com''] = [''a.com'', ''b.com'']"
  by simp

lemma sort_ab: "sort [''a.com'', ''b.com''] = [''a.com'', ''b.com'']"
  by simp

lemma first_run_ab:
  "run_scraper [''b.com'', ''a.com''] False (Loaded [sample_article]) fresh_scraper
     = (Inr [sample_article], scraper_ab)"
  by (simp add: run_scraper_def cache_lookup_def cache_insert_def sort_ba fresh_scraper_def
        scraper_ab_def)

text \<open>
  C5, as the code has it. Once a call of \<^verbatim>\<open>run_scraper\<close> has returned an article
  list, a call without \<^verbatim>\<open>force_fresh\<close> for a source list with the same sources in
  any order, each as often as before (equal as multisets, so in particular two
  duplicate-free lists that are equal as sets), returns the same list and leaves the
  scraper state as it is: the cache is unchanged and the log of spider runs has no new
  entry, whatever the world would have answered.
\<close>

theorem cache_idempotent:
  assumes "mset srcs' = mset srcs"
      and "run_scraper srcs ff w st = (Inr arts, st')"
  shows "run_scraper srcs' False w' st' = (Inr arts, st')"
proof -
  from assms(2) have "cache_lookup st' (sort srcs) = Some arts"
    by (rule run_scraper_Inr_cached)
  with sort_mset_eq [OF assms(1)] have "cache_lookup st' (sort srcs') = Some arts"
    by simp
  then show ?thesis by (rule run_scraper_hit)
qed

theorem cache_idempotent_witness:
  "mset [''a.com'', ''b.com''] = mset [''b.com'', ''a.com''] \<and>
   run_scraper [''b.com'', ''a.com''] False (Loaded [sample_article]) fresh_scraper
     = (Inr [sample_article], scraper_ab) \<and>
   run_scraper [''a.com'', ''b.com''] False SubprocessRaises scraper_ab
     = (Inr [sample_article], scraper_ab)"
proof -
  have h1: "mset [''a.com'', ''b.com''] = mset [''b.com'', ''a.com'']" by simp
  from cache_idempotent [OF h1 first_run_ab] h1 first_run_ab show ?thesis by simp
qed

text \<open>
  The claim as stated fails: two source lists that are equal as sets but name a source a
  different number of times have different sorted tuples, so the second call misses the
  cache, starts the spider again and returns what that run produced.
\<close>

theorem duplicate_source_counterexample:
  "set [''a.com''] = set [''a.com'', ''a.com''] \<and>
   run_scraper [''a.com'', ''a.com''] False (Loaded [sample_article]) fresh_scraper
     = (Inr [sample_article], scraper_aa) \<and>
   run_scraper [''a.com''] False (Loaded []) scraper_aa = (Inr [], scraper_aa_a) \<and>
   spider_runs scraper_aa_a = [[''a.com'', ''a.com''], [''a.com'']]"
  by (simp add: run_scraper_def Let_def cache_lookup_def cache_insert_def fresh_scraper_def
        scraper_aa_def scraper_aa_a_def)

text \<open>
  The same for two duplicate-free source lists that are equal as sets, and for the
  \<^verbatim>\<open>preprocess\<close> node, which passes the state's sources and flag on.
\<close>

lemma cache_idempotent_distinct:
  assumes "distinct srcs" and "distinct srcs'" and "set srcs' = set srcs"
      and "run_scraper srcs ff w st = (Inr arts, st')"
  shows "run_scraper srcs' False w' st' = (Inr arts, st')"
proof -
  from assms(1-3) have m: "mset srcs' = mset srcs"
    by (simp add: set_eq_iff_mset_eq_distinct)
  from assms(4) have "cache_lookup st' (sort srcs) = Some arts"
    by (rule run_scraper_Inr_cached)
  with sort_mset_eq [OF m] have "cache_lookup st' (sort srcs') = Some arts"
    by simp
  then show ?thesis by (rule run_scraper_hit)
qed

lemma preprocess_cached:
  assumes "cache_lookup st (sort (sources state)) = Some arts"
      and "force_fresh state \<noteq> Some True"
  shows "preprocess w (state, st) = (state\<lparr>articles := arts\<rparr>, st)"
proof -
  from assms(2) have "(case force_fresh state of None \<Rightarrow> False | Some b \<Rightarrow> b) = False"
    by (cases "force_fresh state") auto
  with run_scraper_hit [OF assms(1), of w] show ?thesis
    by (simp add: preprocess_def)
qed

text \<open>
  C6, as the code has it. \<^verbatim>\<open>clear_scraper_cache\<close> empties the whole dictionary: after
  a call with \<^verbatim>\<open>force_fresh\<close> the cache holds no entry under any other key, and under
  the call's own key it holds what the call returned (nothing if it raised); the spider
  has been started once.
\<close>

theorem force_fresh_clears_all:
  "cache_lookup (snd (run_scraper srcs True w st)) k =
     (if k = sort srcs
      then (case fst (run_scraper srcs True w st) of Inl e \<Rightarrow> None | Inr arts \<Rightarrow> Some arts)
      else None)
   \<and> spider_runs (snd (run_scraper srcs True w st)) = spider_runs st @ [srcs]"
  by (auto simp: run_scraper_def Let_def cache_lookup_def cache_insert_def clear_scraper_cache_def
           split: option.splits spider_output.splits)

theorem force_fresh_clears_all_witness:
  "cache_lookup (snd (run_scraper [''a.com''] True InvalidJSON scraper_b)) [''a.com''] = Some []
   \<and> spider_runs (snd (run_scraper [''a.com''] True InvalidJSON scraper_b))
       = [[''b.com''], [''a.com'']]"
proof -
  have "fst (run_scraper [''a.com''] True InvalidJSON scraper_b) = Inr []"
    by (simp add: run_scraper_def Let_def cache_lookup_def clear_scraper_cache_def
          scraper_b_def)
  with force_fresh_clears_all [of "[''a.com'']" InvalidJSON scraper_b "[''a.com'']"]
  show ?thesis by (simp add: scraper_b_def)
qed

text \<open>
  The claim as stated fails: an entry stored under the key of another source set is gone
  after a forced run.
\<close>

theorem force_fresh_other_key_counterexample:
  "cache_lookup scraper_b [''b.com''] = Some [sample_article] \<and>
   cache_lookup (snd (run_scraper [''a.com''] True (Loaded []) scraper_b)) [''b.com''] = None"
  by (simp add: run_scraper_def Let_def cache_lookup_def cache_insert_def
        clear_scraper_cache_def scraper_b_def)

text \<open>
  C10, as the code has it. When the spider is started and its output file is missing or
  is not JSON, \<^verbatim>\<open>run_scraper\<close> returns the empty list and stores it under the sorted
  sources. After any later calls none of which has \<^verbatim>\<open>force_fresh\<close> set, a call
  without \<^verbatim>\<open>force_fresh\<close> for the same sources in any order returns that empty list
  and does not start the spider.
\<close>

theorem failed_scrape_is_cached:
  assumes "w = FileNotFound \<or> w = InvalidJSON"
      and "cache_lookup (if ff then clear_scraper_cache st else st) (sort srcs) = None"
      and "list_all (\<lambda>(s, f, x). \<not> f) later"
      and "mset srcs' = mset srcs"
  shows "fst (run_scraper srcs ff w st) = Inr [] \<and>
         spider_runs (snd (run_scraper srcs ff w st)) = spider_runs st @ [srcs] \<and>
         run_scraper srcs' False w' (run_calls later (snd (run_scraper srcs ff w st)))
           = (Inr [], run_calls later (snd (run_scraper srcs ff w st)))"
proof -
  obtain r st1 where r: "run_scraper srcs ff w st = (r, st1)"
    by (cases "run_scraper srcs ff w st")
  from assms(1,2) r have r_empty: "r = Inr []"
    by (auto simp: run_scraper_def Let_def)
  from assms(1,2) r have runs: "spider_runs st1 = spider_runs st @ [srcs]"
    by (auto simp: run_scraper_def Let_def cache_insert_def clear_scraper_cache_def
             split: option.splits)
  from r r_empty have "cache_lookup st1 (sort srcs) = Some []"
    by (simp add: run_scraper_Inr_cached)
  with assms(3) have "cache_lookup (run_calls later st1) (sort srcs) = Some []"
    by (rule run_calls_keeps_entry)
  with sort_mset_eq [OF assms(4)]
  have "cache_lookup (run_calls later st1) (sort srcs') = Some []"
    by simp
  then have "run_scraper srcs' False w' (run_calls later st1) = (Inr [], run_calls later st1)"
    by (rule run_scraper_hit)
  with r r_empty runs show ?thesis by simp
qed

theorem failed_scrape_is_cached_witness:
  "fst (run_scraper [''b.com'', ''a.com''] False FileNotFound fresh_scraper) = Inr [] \<and>
   spider_runs (snd (run_scraper [''b.com'', ''a.com''] False FileNotFound fresh_scraper))
     = [[''b.com'', ''a.com'']] \<and>
   run_scraper [''a.com'', ''b.com''] False (Loaded [sample_article])
     (run_calls [([''c.com''], False, Loaded [sample_article])]
        (snd (run_scraper [''b.com'', ''a.com''] False FileNotFound fresh_scraper)))
     = (Inr [],
        run_calls [([''c.com''], False, Loaded [sample_article])]
          (snd (run_scraper [''b.com'', ''a.com''] False FileNotFound fresh_scraper)))"
proof -
  have h1: "FileNotFound = FileNotFound \<or> FileNotFound = InvalidJSON" by simp
  have h2: "cache_lookup (if False then clear_scraper_cache fresh_scraper else fresh_scraper)
              (sort [''b.com'', ''a.com'']) = None"
    by (simp add: cache_lookup_def fresh_scraper_def)
  have h3: "list_all (\<lambda>(s, f, x). \<not> f) [([''c.com''], False, Loaded [sample_article])]"
    by simp
  have h4: "mset [''a.com'', ''b.com''] = mset [''b.com'', ''a.com'']" by simp
  from failed_scrape_is_cached [OF h1 h2 h3 h4, of "Loaded [sample_article]"]
  show ?thesis by (simp add: fresh_scraper_def)
qed

text \<open>
  The claim as stated fails: a call with \<^verbatim>\<open>force_fresh\<close> in between, for whatever
  sources, clears the whole cache, and the next call for the first sources starts the
  spider again and returns what that run produced.
\<close>

theorem forced_call_between_counterexample:
  "fst (run_scraper [''a.com''] False FileNotFound fresh_scraper) = Inr [] \<and>
   run_scraper [''a.com''] False (Loaded [sample_article])
     (run_calls [([''b.com''], True, Loaded [sample_article])]
        (snd (run_scraper [''a.com''] False FileNotFound fresh_scraper)))
     = (Inr [sample_article], scraper_a_b_a) \<and>
   spider_runs scraper_a_b_a = [[''a.com''], [''b.com''], [''a.com'']]"
  by (simp add: run_scraper_def Let_def cache_lookup_def cache_insert_def
        clear_scraper_cache_def fresh_scraper_def scraper_a_b_a_def)

section \<open>The relevance stage\<close>

lemma vote_loop_bound:
  assumes "length rel < 5" and "vote_loop votes rel = (rel', returned)"
  shows "if returned then length rel' = 5 else length rel' < 5"
  using assms
proof (induction votes rel rule: vote_loop.induct)
  case (1 rel)
  then show ?case by auto
next
  case (2 line voted rest rel)
  then show ?case
    by (auto simp: Let_def split: if_splits)
qed

lemma batch_loop_bound:
  assumes "length rel < 5" and "list_all (\<lambda>(batch, found). found < 5) calls"
  shows "length (fst (batch_loop llm interest arts starts rel calls)) \<le> 5 \<and>
         list_all (\<lambda>(batch, found). found < 5)
           (snd (batch_loop llm interest arts starts rel calls))"
  using assms
proof (induction starts arbitrary: rel calls)
  case Nil
  then show ?case by simp
next
  case (Cons i starts)
  let ?batch = "take BATCH_SIZE (drop i arts)"
  let ?log = "calls @ [( ?batch , length rel)]"
  from Cons.prems have calls': "list_all (\<lambda>(batch, found). found < 5) ?log" by simp
  show ?case
  proof (cases "llm (length calls) interest ?batch")
    case InvokeRaises
    with Cons.IH [OF Cons.prems(1) calls'] show ?thesis by (simp add: Let_def)
  next
    case NotAIMessage
    with Cons.IH [OF Cons.prems(1) calls'] show ?thesis by (simp add: Let_def)
  next
    case (AIMessage reply)
    obtain rel' returned
      where v: "vote_loop (zip (split_on (CHR 0x0A) (strip reply)) ?batch) rel = (rel', returned)"
      by (cases "vote_loop (zip (split_on (CHR 0x0A) (strip reply)) ?batch) rel")
    from vote_loop_bound [OF Cons.prems(1) v]
    have b: "if returned then length rel' = 5 else length rel' < 5" .
    show ?thesis
    proof (cases returned)
      case True
      with b AIMessage v calls' show ?thesis by (simp add: Let_def)
    next
      case False
      with b have "length rel' < 5" by simp
      from Cons.IH [OF this calls'] AIMessage v False show ?thesis by (simp add: Let_def)
    qed
  qed
qed

text \<open>
  Once the fifth relevant article is found in a batch, \<^verbatim>\<open>batch_filter_articles\<close>
  returns: the batches still to come (\<open>starts\<close>) play no part in the result and add no
  call to the log.
\<close>

lemma batch_loop_returns_at_fifth:
  assumes "llm (length calls) interest (take BATCH_SIZE (drop i arts)) = AIMessage text"
      and "vote_loop (zip (split_on (CHR 0x0A) (strip text)) (take BATCH_SIZE (drop i arts))) rel
             = (rel', True)"
  shows "batch_loop llm interest arts (i # starts) rel calls
           = (rel', calls @ [(take BATCH_SIZE (drop i arts), length rel)])"
  using assms by (simp add: Let_def)

text \<open>
  C7. \<^verbatim>\<open>batch_filter_articles\<close> returns at most five articles, and every call of the
  collaborator was made while fewer than five relevant articles had been found: none is
  made after the fifth.
\<close>

theorem batch_filter_at_most_five:
  "length (fst (batch_filter_articles arts interest llm)) \<le> 5 \<and>
   list_all (\<lambda>(batch, found). found < 5) (snd (batch_filter_articles arts interest llm))"
proof (cases "arts = []")
  case True
  then show ?thesis by (simp add: batch_filter_articles_def)
next
  case False
  have "length ([] :: article list) < 5" by simp
  moreover have "list_all (\<lambda>(batch, found). found < 5) ([] :: (article list \<times> nat) list)"
    by simp
  ultimately show ?thesis
    using False batch_loop_bound [of "[]" "[]" llm interest arts]
    by (simp add: batch_filter_articles_def)
qed

lemma seven_articles_filtered:
  "batch_filter_articles seven_articles ''Qatar economy'' yes_llm
     = (take 5 seven_articles, [(take 5 seven_articles, 0)])"
  by (simp add: batch_filter_articles_def seven_articles_def yes_llm_def range_step_def
        BATCH_SIZE_def Let_def strip_def isspace_def startswith_def upt_rec)

theorem batch_filter_at_most_five_witness:
  "batch_filter_articles seven_articles ''Qatar economy'' yes_llm
     = (take 5 seven_articles, [(take 5 seven_articles, 0)]) \<and>
   length (fst (batch_filter_articles seven_articles ''Qatar economy'' yes_llm)) \<le> 5 \<and>
   list_all (\<lambda>(batch, found). found < 5)
     (snd (batch_filter_articles seven_articles ''Qatar economy'' yes_llm))"
  using batch_filter_at_most_five [of seven_articles "''Qatar economy''" yes_llm]
    seven_articles_filtered
  by blast

section \<open>The summarization stage\<close>

text \<open>
  C9. With no relevant article, \<^verbatim>\<open>summarize_articles_async\<close> sets the summary to the
  fixed message and calls the collaborator for no article; \<^verbatim>\<open>show_summary\<close> hands
  that message on.
\<close>

theorem no_relevant_sentinel:
  assumes "relevant_articles state = []"
  shows "summarize_articles_async llm state =
           (state\<lparr>summary := ''No relevant information found for this topic.''\<rparr>, [])
         \<and> summary (show_summary (fst (summarize_articles_async llm state)))
             = ''No relevant information found for this topic.''"
  using assms by (simp add: summarize_articles_async_def show_summary_def)

theorem no_relevant_sentinel_witness:
  "relevant_articles sample_state = [] \<and>
   summarize_articles_async silent_summarizer sample_state =
     (sample_state\<lparr>summary := ''No relevant information found for this topic.''\<rparr>, []) \<and>
   summary (show_summary (fst (summarize_articles_async silent_summarizer sample_state)))
     = ''No relevant information found for this topic.''"
proof -
  have h: "relevant_articles sample_state = []" by (simp add: sample_state_def)
  from no_relevant_sentinel [OF h, of silent_summarizer] h
  show ?thesis by blast
qed

subsection \<open>The fallback summary\<close>

lemma split_on_not_Nil: "split_on sep s \<noteq> []"
  by (induction s) (auto split: list.splits)

lemma split_on_no_sep: "sep \<notin> set s \<Longrightarrow> split_on sep s = [s]"
  by (induction s) auto

text \<open>
  \<^verbatim>\<open>str.split\<close> never returns an empty list, so the branch that cuts the content at
  200 characters is never taken.
\<close>

lemma fallback_summary_sentences:
  "fallback_summary s = join ''. '' (take 3 (split_on (CHR ''.'') s)) @ ''.''"
proof -
  have "take 3 (split_on (CHR ''.'') s) \<noteq> []"
    using split_on_not_Nil [of "CHR ''.''" s] by (cases "split_on (CHR ''.'') s") auto
  then show ?thesis by (simp add: fallback_summary_def Let_def)
qed

lemma fallback_summary_no_stop:
  assumes "CHR ''.'' \<notin> set s"
  shows "fallback_summary s = s @ ''.''"
  using assms by (simp add: fallback_summary_sentences split_on_no_sep)

lemma dotless_no_stop: "CHR ''.'' \<notin> set dotless"
  by (simp add: dotless_def)

text \<open>
  C8 at an article whose content has no full stop and whose summary call raises: the
  summary in the report is the whole content, 300 characters, with a full stop added,
  not its first 200 characters.
\<close>

theorem fallback_keeps_whole_content:
  "summarize_articles_async silent_summarizer dotless_state =
     (dotless_state\<lparr>summary :=
        join [CHR 0x0A]
          [''# '' @ newspaper @ '' Latest News Summary'', '''',
           ''**Topic:** Qatar economy'', ''**Articles Found:** 1'', '''', ''---'', '''',
           ''## '' @ page_facing_up @ '' Article 1'', '''',
           ''**Title:** Qatar GDP grows'', '''',
           ''**Source:** https://e.com/story/1'', '''',
           ''**Summary:**'', '''', dotless @ ''.'',
           '''', ''---'', '''',
           ''*Generated by News Analyzer*'']\<rparr>,
      [dotless_article]) \<and>
   length (dotless @ ''.'') = 301 \<and>
   fallback_summary dotless \<noteq> take 200 dotless @ ''...''"
proof -
  have len: "length dotless = 300" by (simp add: dotless_def)
  have ne: "dotless \<noteq> []" using len by auto
  have fb: "fallback_summary dotless = dotless @ ''.''"
    using dotless_no_stop by (rule fallback_summary_no_stop)
  have loop: "summarize_loop silent_summarizer 0 1 [dotless_article] =
     ([''## '' @ page_facing_up @ '' Article 1'', '''',
       ''**Title:** Qatar GDP grows'', '''',
       ''**Source:** https://e.com/story/1'', '''',
       ''**Summary:**'', '''', dotless @ ''.'',
       '''', ''---'', ''''],
      [dotless_article])"
    using ne fb by (simp add: dotless_article_def silent_summarizer_def Let_def)
  have filt: "filter (\<lambda>a. \<not> length (content a) < 100) (relevant_articles dotless_state)
                = [dotless_article]"
    using len by (simp add: dotless_state_def dotless_article_def)
  have rel: "relevant_articles dotless_state \<noteq> []"
    by (simp add: dotless_state_def)
  have topic: "business_interest dotless_state = ''Qatar economy''"
    by (simp add: dotless_state_def)
  have run: "summarize_articles_async silent_summarizer dotless_state =
     (dotless_state\<lparr>summary :=
        join [CHR 0x0A]
          [''# '' @ newspaper @ '' Latest News Summary'', '''',
           ''**Topic:** Qatar economy'', ''**Articles Found:** 1'', '''', ''---'', '''',
           ''## '' @ page_facing_up @ '' Article 1'', '''',
           ''**Title:** Qatar GDP grows'', '''',
           ''**Source:** https://e.com/story/1'', '''',
           ''**Summary:**'', '''', dotless @ ''.'',
           '''', ''---'', '''',
           ''*Generated by News Analyzer*'']\<rparr>,
      [dotless_article])"
    unfolding summarize_articles_async_def Let_def filt loop topic using rel by simp
  have differ: "fallback_summary dotless \<noteq> take 200 dotless @ ''...''"
  proof
    assume "fallback_summary dotless = take 200 dotless @ ''...''"
    then have "length (fallback_summary dotless) = length (take 200 dotless @ ''...'')" by simp
    with fb len show False by simp
  qed
  from run len differ show ?thesis by simp
qed

end
